theory Spec2Isabelle
  imports Main "HOL-Library.Word"
begin

unbundle bit_operations_syntax

section \<open>The local chunk store (package storage)\<close>

subsection \<open>Chunks, keys and failures\<close>

text \<open>
  A \<open>Key\<close> is a byte slice; only its length and its bytes are ever inspected, so the
  nil key and the empty key are the same list. \<open>SData\<close> is a byte slice that the code
  compares with nil, so it is an option: \<open>None\<close> is the nil slice of a pending chunk.
  \<open>Size\<close> is an int64, kept as its 64 bits. The two transient fields are references:
  \<open>wg\<close> is the address of a wait group (\<open>None\<close> is the nil pointer) and \<open>dbStored\<close>
  is the identity of a channel (\<open>None\<close> before the first Put); the counters and the
  channels themselves live in the run-time state below, because they are shared with
  the caller and with the background writer.
\<close>

type_synonym byte = "8 word"
type_synonym Key = "byte list"

record Chunk =
  Key :: Key
  SData :: "byte list option"
  Size :: "64 word"
  wg :: "nat option"
  dbStored :: "nat option"

text \<open>
  Every way in which a call does not deliver a chunk: the error value \<open>notFound\<close>, the
  two run-time panics that the modelled statements can raise, and a wait that never ends.
\<close>

datatype failure =
  notFound
  | panic_slice_bounds_out_of_range
  | panic_negative_WaitGroup_counter
  | blocked_forever

subsection \<open>MemStore\<close>

text \<open>
  Modelled from the spec: the MemStore type (memstore.go is not among the sources).
  Section 4.C: a mapping from Key to Chunk bounded by \<open>capacity\<close> entries, where
  capacity zero means unbounded, with the order of access of its entries. The entries
  are kept most recently accessed first.
\<close>

record MemStore =
  entries :: "(Key \<times> Chunk) list"
  capacity :: nat

text \<open>An access moves the entry of a key to the front.\<close>

definition bump :: "Key \<Rightarrow> 'v \<Rightarrow> (Key \<times> 'v) list \<Rightarrow> (Key \<times> 'v) list" where
  "bump k v es = (k, v) # filter (\<lambda>e. fst e \<noteq> k) es"

text \<open>
  Modelled from the spec: the eviction of MemStore. Section 4.C: the candidates are
  taken least recently accessed first; a candidate that is still pending (SData nil) is
  not evicted, the next candidate is taken instead. When every entry is pending
  nothing is evicted.
\<close>

fun dropFirstResident :: "(Key \<times> Chunk) list \<Rightarrow> (Key \<times> Chunk) list" where
  "dropFirstResident [] = []"
| "dropFirstResident (e # es) =
     (if SData (snd e) \<noteq> None then es else e # dropFirstResident es)"

definition removeOldest :: "(Key \<times> Chunk) list \<Rightarrow> (Key \<times> Chunk) list" where
  "removeOldest es = rev (dropFirstResident (rev es))"

text \<open>
  Modelled from the spec: MemStore.Put. Section 4.C: insert or overwrite; if the
  store is at capacity, evict one entry. Section 4.E has the chunk in the memory store
  when Put returns, so the chunk is inserted also when no entry could be evicted;
  scenario S6 leaves that case to the implementation and only asks that the pending
  entries survive, which they do.
\<close>

definition MemStore_Put :: "MemStore \<Rightarrow> Chunk \<Rightarrow> MemStore" where
  "MemStore_Put m c =
     (let es = entries m in
      if map_of es (Key c) \<noteq> None then m\<lparr>entries := bump (Key c) c es\<rparr>
      else m\<lparr>entries :=
             (Key c, c) # (if capacity m \<noteq> 0 \<and> capacity m \<le> length es
                           then removeOldest es else es)\<rparr>)"

text \<open>
  Modelled from the spec: MemStore.Get. Section 4.C: bump recency and return the
  chunk; a key that is absent is an error, which \<open>LocalStore.Get\<close> tests for.
\<close>

definition MemStore_Get :: "MemStore \<Rightarrow> Key \<Rightarrow> (failure + Chunk) \<times> MemStore" where
  "MemStore_Get m k =
     (case map_of (entries m) k of
        None \<Rightarrow> (Inl notFound, m)
      | Some c \<Rightarrow> (Inr c, m\<lparr>entries := bump k c (entries m)\<rparr>))"

subsection \<open>DbStore\<close>

text \<open>
  Modelled from the spec: the DbStore type (dbstore.go is not among the sources).
  Section 4.D: a mapping from Key to the serialized chunk bytes, bounded by
  \<open>dbcapacity\<close> entries, kept most recently accessed first.
\<close>

record DbStore =
  dbentries :: "(Key \<times> byte list) list"
  dbcapacity :: nat

text \<open>
  Modelled from the spec: DbStore.Put. Section 4.D: Put is idempotent, writing a key
  that is present only refreshes its recency; when an insertion would exceed the
  capacity the least recently accessed entry is removed. The durable substrate can
  fail: \<open>ok\<close> is the outcome of the write, and a failed write leaves the store as it
  was. Section 3: the store holds durable copies only, so a chunk without data writes
  nothing.
\<close>

definition DbStore_Put :: "bool \<Rightarrow> DbStore \<Rightarrow> Chunk \<Rightarrow> DbStore" where
  "DbStore_Put ok d c =
     (case SData c of
        None \<Rightarrow> d
      | Some bs \<Rightarrow>
          if \<not> ok then d
          else (case map_of (dbentries d) (Key c) of
                  Some old \<Rightarrow> d\<lparr>dbentries := bump (Key c) old (dbentries d)\<rparr>
                | None \<Rightarrow>
                    d\<lparr>dbentries :=
                        (Key c, bs) # (if dbcapacity d \<le> length (dbentries d)
                                       then butlast (dbentries d) else dbentries d)\<rparr>))"

text \<open>
  Modelled from the spec: DbStore.Get. Section 4.D: the error of an absent key is
  \<open>notFound\<close>; a key that is present is returned as a chunk with the stored bytes,
  and the access bumps its recency.
\<close>

definition DbStore_Get :: "DbStore \<Rightarrow> Key \<Rightarrow> (failure + Chunk) \<times> DbStore" where
  "DbStore_Get d k =
     (case map_of (dbentries d) k of
        None \<Rightarrow> (Inl notFound, d)
      | Some bs \<Rightarrow>
          (Inr \<lparr>Key = k, SData = Some bs, Size = 0, wg = None, dbStored = None\<rparr>,
           d\<lparr>dbentries := bump k bs (dbentries d)\<rparr>))"

subsection \<open>LocalStore and the run-time state\<close>

text \<open>
  \<open>LocalStore\<close> is the struct of the source: the embedded hasher (a parameter here,
  since the hash function is configured by name), the memory store and the durable
  store. The run-time state extends it with what the goroutine of \<open>Put\<close> shares with
  its caller: the wait-group counters by address, the channels by identity (\<open>True\<close>
  once closed), and the goroutines that have been started and have not run yet, each
  with the chunk it captured.
\<close>

record LocalStore =
  Hash :: "byte list \<Rightarrow> Key"
  memStore :: MemStore
  DbStore :: DbStore

record state = LocalStore +
  wgs :: "nat \<Rightarrow> nat"
  chans :: "bool list"
  tasks :: "Chunk list"

text \<open>\<open>make(chan bool)\<close>: a fresh, open channel.\<close>

definition make_chan :: "state \<Rightarrow> nat \<times> state" where
  "make_chan s = (length (chans s), s\<lparr>chans := chans s @ [False]\<rparr>)"

text \<open>The bytes a slice holds; hashing the nil slice hashes no bytes.\<close>

definition bytes_of :: "byte list option \<Rightarrow> byte list" where
  "bytes_of d = (case d of None \<Rightarrow> [] | Some bs \<Rightarrow> bs)"

text \<open>
  \<open>LocalStore.Put\<close>, the part that runs in the caller. The chunk is passed by pointer
  and updated in place, so the updated chunk is returned with the state. The memory
  store and the goroutine keep the chunk as it is when Put hands it to them; no
  statement of Put or Get changes a field of a chunk after that, the counter and the
  channel being reached through the chunk's references.
\<close>

definition LocalStore_Put :: "state \<Rightarrow> Chunk \<Rightarrow> state \<times> Chunk" where
  "LocalStore_Put s chunk =
     (let (ch, s1) = make_chan s;
          chunk1 = chunk\<lparr>dbStored := Some ch\<rparr>;
          chunk2 = (if length (Key chunk1) = 0
                    then chunk1\<lparr>Key := Hash s1 (bytes_of (SData chunk1))\<rparr>
                    else chunk1);
          s2 = s1\<lparr>memStore := MemStore_Put (memStore s1) chunk2\<rparr>;
          s3 = (case wg chunk2 of
                  None \<Rightarrow> s2
                | Some a \<Rightarrow> s2\<lparr>wgs := (wgs s2)(a := wgs s2 a + 1)\<rparr>);
          s4 = (if SData chunk2 \<noteq> None then s3\<lparr>tasks := tasks s3 @ [chunk2]\<rparr> else s3)
      in (s4, chunk2))"

text \<open>
  \<open>wg.Done()\<close> decrements the counter and panics when it would become negative.
\<close>

definition wg_Done :: "state \<Rightarrow> nat \<Rightarrow> failure + state" where
  "wg_Done s a =
     (if wgs s a = 0 then Inl panic_negative_WaitGroup_counter
      else Inr (s\<lparr>wgs := (wgs s)(a := wgs s a - 1)\<rparr>))"

text \<open>
  Modelled from the spec: the signal of DbStore.Put (section 4.D: the chunk's dbStored
  signal fires after the write, regardless of success or error).
\<close>

definition signal_dbStored :: "state \<Rightarrow> Chunk \<Rightarrow> state" where
  "signal_dbStored s c =
     (case dbStored c of
        None \<Rightarrow> s
      | Some ch \<Rightarrow> s\<lparr>chans := (chans s)[ch := True]\<rparr>)"

text \<open>
  The goroutine of \<open>Put\<close>: the durable write, whose outcome is \<open>ok\<close>, then the
  decrement of the wait group when the chunk has one.
\<close>

definition background :: "bool \<Rightarrow> state \<Rightarrow> Chunk \<Rightarrow> failure + state" where
  "background ok s chunk =
     (let s1 = signal_dbStored (s\<lparr>DbStore := DbStore_Put ok (DbStore s) chunk\<rparr>) chunk
      in case wg chunk of
           None \<Rightarrow> Inr s1
         | Some a \<Rightarrow> wg_Done s1 a)"

text \<open>Whether the channel of the chunk has been closed.\<close>

definition signaled :: "state \<Rightarrow> Chunk \<Rightarrow> bool" where
  "signaled s c =
     (case dbStored c of
        None \<Rightarrow> False
      | Some ch \<Rightarrow> ch < length (chans s) \<and> chans s ! ch)"

text \<open>
  Modelled from the spec: Chunk.WaitToStore (chunk.go is not among the sources).
  Section 4.E: block on dbStored. While the caller is blocked the started goroutines
  run, in the order they were started, the n-th with the n-th outcome of \<open>oks\<close>,
  until the chunk's channel is closed; when no goroutine is left to close it the
  caller blocks forever.
\<close>

fun WaitToStore :: "bool list \<Rightarrow> state \<Rightarrow> Chunk \<Rightarrow> failure + state" where
  "WaitToStore [] s c = (if signaled s c then Inr s else Inl blocked_forever)"
| "WaitToStore (ok # oks) s c =
     (if signaled s c then Inr s
      else (case tasks s of
              [] \<Rightarrow> Inl blocked_forever
            | t # ts \<Rightarrow>
                (case background ok (s\<lparr>tasks := ts\<rparr>) t of
                   Inl f \<Rightarrow> Inl f
                 | Inr s' \<Rightarrow> WaitToStore oks s' c)))"

text \<open>
  \<open>binary.LittleEndian.Uint64\<close> on a slice of eight bytes, and the conversion to
  int64, which keeps the bits.
\<close>

definition LittleEndian_Uint64 :: "byte list \<Rightarrow> 64 word" where
  "LittleEndian_Uint64 b =
     ucast (b ! 0) OR push_bit 8 (ucast (b ! 1)) OR push_bit 16 (ucast (b ! 2))
     OR push_bit 24 (ucast (b ! 3)) OR push_bit 32 (ucast (b ! 4))
     OR push_bit 40 (ucast (b ! 5)) OR push_bit 48 (ucast (b ! 6))
     OR push_bit 56 (ucast (b ! 7))"

text \<open>
  \<open>LocalStore.Get\<close>. The slice expression \<open>chunk.SData[0:8]\<close> is taken of a slice
  whose capacity is its length: with fewer than eight bytes (or nil) it panics.
\<close>

definition LocalStore_Get :: "state \<Rightarrow> Key \<Rightarrow> (failure + Chunk) \<times> state" where
  "LocalStore_Get s key =
     (case MemStore_Get (memStore s) key of
        (Inr chunk, m) \<Rightarrow> (Inr chunk, s\<lparr>memStore := m\<rparr>)
      | (Inl _, m) \<Rightarrow>
          (let s1 = s\<lparr>memStore := m\<rparr> in
           case DbStore_Get (DbStore s1) key of
             (Inl err, d) \<Rightarrow> (Inl err, s1\<lparr>DbStore := d\<rparr>)
           | (Inr chunk, d) \<Rightarrow>
               (let s2 = s1\<lparr>DbStore := d\<rparr> in
                if length (bytes_of (SData chunk)) < 8
                then (Inl panic_slice_bounds_out_of_range, s2)
                else (let chunk1 = chunk\<lparr>Size := LittleEndian_Uint64
                                                    (take 8 (bytes_of (SData chunk)))\<rparr>
                      in (Inr chunk1,
                          s2\<lparr>memStore := MemStore_Put (memStore s2) chunk1\<rparr>)))))"


subsection \<open>The value of a little-endian byte string\<close>



section \<open>The retrieval protocol, server side (package network)\<close>

subsection \<open>Messages\<close>

text \<open>
  The three messages of the retrieval exchange. A byte slice inside a message is a
  list: nil and empty are the same on the wire. \<open>SData\<close> keeps the option of the chunk
  it is copied from. The handover proof is a pointer, nil in every message here.
\<close>

datatype Msg =
  OfferedHashesMsg string "byte list" "64 word" "64 word" "byte list" "byte list option"
  | RetrieveRequestMsg Key bool
  | ChunkDeliveryMsg Key "byte list option"

text \<open>
  The fields of \<open>OfferedHashesMsg\<close>, in the order Stream, Key, From, To, Hashes,
  HandoverProof. A message on the wire is its code and its content.
\<close>

type_synonym wire = "nat \<times> Msg"

text \<open>
  Modelled from the spec: the name of the stream for chunk retrieval (glossary); its
  value is not in the sources and no property depends on it.
\<close>

definition retrieveRequestStream :: string where
  "retrieveRequestStream = ''RETRIEVE_REQUEST''"

subsection \<open>The handler of the retrieve request\<close>

text \<open>
  Modelled from the spec: the server side of section 4.G (the handler is not among
  the sources; only its tests are). On a retrieve request the server looks the key
  up in the LocalStore. If it is not found it replies with an empty OfferedHashesMsg
  (From 0, To 0, no hashes). If it is found and SkipCheck is set it replies with the
  ChunkDeliveryMsg of the key and the chunk's data, code 6. If it is found and
  SkipCheck is not set it replies with an OfferedHashesMsg, code 1, whose hashes are
  the key, From 0 and To 32. A lookup that panics sends nothing.
\<close>

definition handleRetrieveRequestMsg :: "state \<Rightarrow> Key \<Rightarrow> bool \<Rightarrow> wire list \<times> state" where
  "handleRetrieveRequestMsg s key skipCheck =
     (case LocalStore_Get s key of
        (Inl err, s') \<Rightarrow>
          (if err = notFound then [(1, OfferedHashesMsg [] [] 0 0 [] None)] else [], s')
      | (Inr chunk, s') \<Rightarrow>
          if skipCheck then ([(6, ChunkDeliveryMsg key (SData chunk))], s')
          else ([(1, OfferedHashesMsg retrieveRequestStream [] 0 32 key None)], s'))"

subsection \<open>The exchanges of the tests\<close>

text \<open>
  Modelled from the spec: the exchange of the protocol tester (p2p/testing is not
  among the sources). Scenarios S2 to S4 describe an exchange as triggering inbound
  messages and expecting outbound ones, and S2 names its time-out. The messages the
  node sends to the peer are compared with the expected ones in order: an expected
  message that never arrives ends the exchange with the time-out error, which carries
  the index and the label of the exchange; a different message ends it with a
  mismatch; otherwise the exchange returns no error.
\<close>

datatype exchange_error = timed_out nat string | mismatch nat string

fun expect :: "nat \<Rightarrow> string \<Rightarrow> wire list \<Rightarrow> wire list \<Rightarrow> exchange_error option" where
  "expect i label [] received = None"
| "expect i label (e # es) [] = Some (timed_out i label)"
| "expect i label (e # es) (r # received) =
     (if e = r then expect i label es received else Some (mismatch i label))"

text \<open>
  Modelled from the spec: TestExchanges of the protocol tester, for one exchange with
  one trigger, as the tests use it. The trigger goes to the node, which is a handler
  over the store, and the node's replies are matched with the expected messages.
\<close>

definition TestExchanges ::
  "(state \<Rightarrow> Key \<Rightarrow> bool \<Rightarrow> wire list \<times> state) \<Rightarrow> state \<Rightarrow> string \<Rightarrow> wire \<Rightarrow> wire list
    \<Rightarrow> exchange_error option \<times> state" where
  "TestExchanges node s label trigger expects =
     (case snd trigger of
        RetrieveRequestMsg key skipCheck \<Rightarrow>
          (let (sent, s') = node s key skipCheck in (expect 0 label expects sent, s'))
      | _ \<Rightarrow> (expect 0 label expects [], s))"

datatype test_result = PASS | FATAL


text \<open>
  \<open>TestStreamerUpstreamRetrieveRequestMsgExchange\<close>: the chunk with key and data
  \<open>hash0\<close> is put and waited for, the request without SkipCheck must be answered by
  the offered hashes; then the chunk with key and data \<open>hash1\<close> is put and waited
  for, and the request with SkipCheck must be answered by the delivery. The test
  fails when an exchange returns an error. The outcomes of the two durable writes
  are parameters.
\<close>

definition TestStreamerUpstreamRetrieveRequestMsgExchange ::
  "(state \<Rightarrow> Key \<Rightarrow> bool \<Rightarrow> wire list \<times> state) \<Rightarrow> state \<Rightarrow> Key \<Rightarrow> Key \<Rightarrow> bool \<Rightarrow> bool
    \<Rightarrow> test_result" where
  "TestStreamerUpstreamRetrieveRequestMsgExchange node s hash0 hash1 ok0 ok1 =
     (let (s1, chunk0) = LocalStore_Put s
            \<lparr>Key = hash0, SData = Some hash0, Size = 0, wg = None, dbStored = None\<rparr>
      in case WaitToStore [ok0] s1 chunk0 of
           Inl _ \<Rightarrow> FATAL
         | Inr s2 \<Rightarrow>
             (case TestExchanges node s2 ''RetrieveRequestMsg''
                     (5, RetrieveRequestMsg hash0 False)
                     [(1, OfferedHashesMsg retrieveRequestStream [] 0 32 hash0 None)] of
                (Some _, _) \<Rightarrow> FATAL
              | (None, s3) \<Rightarrow>
                  (let (s4, chunk1) = LocalStore_Put s3
                         \<lparr>Key = hash1, SData = Some hash1, Size = 0, wg = None,
                          dbStored = None\<rparr>
                   in case WaitToStore [ok1] s4 chunk1 of
                        Inl _ \<Rightarrow> FATAL
                      | Inr s5 \<Rightarrow>
                          (case TestExchanges node s5 ''RetrieveRequestMsg''
                                  (5, RetrieveRequestMsg hash1 True)
                                  [(6, ChunkDeliveryMsg hash1 (Some hash1))] of
                             (Some _, _) \<Rightarrow> FATAL
                           | (None, _) \<Rightarrow> PASS))))"


text \<open>Whether a message on the wire is an OfferedHashesMsg, or a ChunkDeliveryMsg.\<close>

fun isOfferedHashesMsg :: "wire \<Rightarrow> bool" where
  "isOfferedHashesMsg (code, OfferedHashesMsg stream key from to hashes proof) = True"
| "isOfferedHashesMsg (code, _) = False"


section \<open>The in-process node adapter (package adapters)\<close>

text \<open>
  A node identifier stands for the 64 bytes of \<open>discover.NodeID\<close>. The faults are the
  ways in which a call of this package or of the simulation network does not return
  normally: the explicit panic of \<open>AddPeer\<close>, the run-time panics of a nil
  dereference and of an index out of range, and a lock that is never released.
\<close>

type_synonym NodeID = nat

datatype fault =
  panic_unknown_peer NodeID
  | panic_nil_pointer_dereference
  | panic_index_out_of_range
  | deadlock

text \<open>
  Modelled from the spec: the message pipe (package p2p is not among the sources).
  Section 4.I: a pipe has two ends. \<open>p2p.MsgPipe()\<close> returns the two ends of a
  fresh pipe, and \<open>p2p.NewMsgEventer\<close> wraps an end with the feed it reports to and
  a peer identifier. An end is the number of its pipe and its side, 1 or 2; the feed
  is named by the node that owns it.
\<close>

record MsgEventer =
  pipe :: nat
  side :: nat
  feed :: NodeID
  peerID :: NodeID

datatype PeerEventType = PeerEventTypeAdd | PeerEventTypeDrop

datatype PeerEvent = PeerEvent PeerEventType NodeID string

text \<open>
  \<open>SimNode\<close>: its identifier, whether a service is running (the field \<open>running\<close> is
  not nil), its peer table and what has been sent on its peer feed.
\<close>

record SimNode =
  Id :: NodeID
  running :: bool
  peers :: "NodeID \<rightharpoonup> MsgEventer"
  peerFeed :: "PeerEvent list"

definition Running :: "SimNode \<Rightarrow> bool" where
  "Running n = running n"

text \<open>
  The goroutines that \<open>RunProtocol\<close> starts: the one that closes the pipe end when
  the node drops its peers, and the one that emits the add event and runs the
  protocol, each with the node it belongs to.
\<close>

datatype goroutine =
  closeOnDrop NodeID MsgEventer
  | runProtocol NodeID NodeID MsgEventer

text \<open>
  \<open>SimAdapter\<close> holds the nodes by identifier. The run-time state adds the number of
  pipes created so far and the goroutines started so far.
\<close>

record SimAdapter =
  nodes :: "NodeID \<rightharpoonup> SimNode"

record sim = SimAdapter +
  pipes :: nat
  started :: "goroutine list"

text \<open>
  \<open>SimNode.RunProtocol\<close> up to the start of its goroutines. The receiver is named by
  its identifier. Reading the protocol of a node without a running service
  dereferences nil.
\<close>

definition RunProtocol :: "sim \<Rightarrow> NodeID \<Rightarrow> NodeID \<Rightarrow> MsgEventer \<Rightarrow> fault + sim" where
  "RunProtocol a self peer rw =
     (case nodes a self of
        None \<Rightarrow> Inl panic_nil_pointer_dereference
      | Some n \<Rightarrow>
          (let a1 = a\<lparr>started := started a @ [closeOnDrop self rw]\<rparr> in
           if \<not> running n then Inl panic_nil_pointer_dereference
           else Inr (a1\<lparr>started := started a1 @ [runProtocol self peer rw]\<rparr>)))"

text \<open>
  The first step of a started goroutine: the protocol runner sends the add event,
  with the identifier of the peer, on the feed of its node; the other goroutine waits.
\<close>

fun goroutine_start :: "sim \<Rightarrow> goroutine \<Rightarrow> sim" where
  "goroutine_start a (closeOnDrop self rw) = a"
| "goroutine_start a (runProtocol self peer rw) =
     (case nodes a self of
        None \<Rightarrow> a
      | Some n \<Rightarrow>
          a\<lparr>nodes := (nodes a)(self \<mapsto>
               n\<lparr>peerFeed := peerFeed n @ [PeerEvent PeerEventTypeAdd peer []]\<rparr>)\<rparr>)"

text \<open>
  \<open>SimNode.AddPeer\<close>. The method holds the lock of the receiver until it returns,
  and \<open>peerNode.Running()\<close> takes the lock of the peer: when the peer is the
  receiver itself the second lock is never granted.
\<close>

definition AddPeer :: "sim \<Rightarrow> NodeID \<Rightarrow> NodeID \<Rightarrow> fault + sim" where
  "AddPeer a self peer =
     (case nodes a self of
        None \<Rightarrow> Inl panic_nil_pointer_dereference
      | Some n \<Rightarrow>
          if peers n peer \<noteq> None then Inr a
          else (case nodes a peer of
                  None \<Rightarrow> Inl (panic_unknown_peer peer)
                | Some peerNode \<Rightarrow>
                    if peer = self then Inl deadlock
                    else if \<not> Running peerNode then Inr a
                    else (let p = pipes a;
                              a1 = a\<lparr>pipes := p + 1\<rparr>;
                              localRW = \<lparr>pipe = p, side = 1, feed = self, peerID = peer\<rparr>;
                              peerRW = \<lparr>pipe = p, side = 2, feed = self, peerID = self\<rparr>;
                              a2 = a1\<lparr>nodes := (nodes a1)(self \<mapsto>
                                         n\<lparr>peers := (peers n)(peer \<mapsto> peerRW)\<rparr>)\<rparr>
                          in case RunProtocol a2 peer self peerRW of
                               Inl f \<Rightarrow> Inl f
                             | Inr a3 \<Rightarrow> RunProtocol a3 self peer localRW)))"

text \<open>The entry for \<open>b\<close> in the peer table of node \<open>a\<close>, and the feed of a node.\<close>

definition peerOf :: "sim \<Rightarrow> NodeID \<Rightarrow> NodeID \<Rightarrow> MsgEventer option" where
  "peerOf s a b = (case nodes s a of None \<Rightarrow> None | Some n \<Rightarrow> peers n b)"

definition feedOf :: "sim \<Rightarrow> NodeID \<Rightarrow> PeerEvent list" where
  "feedOf s a = (case nodes s a of None \<Rightarrow> [] | Some n \<Rightarrow> peerFeed n)"

section \<open>The simulation network (package simulations)\<close>

text \<open>
  A \<open>Node\<close> of the network with its flag. A \<open>Conn\<close> holds the two identifiers, the
  two nodes it points to (as their positions in \<open>Nodes\<close>, which holds the pointers),
  and the two flags. The events posted on the output mux are kept in order; an event
  names the node or the connection it is about by its position.
\<close>

record Node =
  Id :: NodeID
  Up :: bool

record Conn =
  One :: NodeID
  Other :: NodeID
  one :: nat
  other :: nat
  Up :: bool
  Reverse :: bool

datatype Event = NodeEvent string string nat | ConnEvent string string nat

text \<open>
  Modelled from the spec: ConnLabel (not among the sources). Section 3: a Conn is
  kept under the pair of its identifiers in canonical order, so that the order of the
  two arguments does not matter and there is at most one Conn per unordered pair.
\<close>

definition ConnLabel :: "NodeID \<Rightarrow> NodeID \<Rightarrow> NodeID \<times> NodeID" where
  "ConnLabel oneId otherId = (min oneId otherId, max oneId otherId)"

record Network =
  nodeMap :: "NodeID \<rightharpoonup> nat"
  connMap :: "NodeID \<times> NodeID \<rightharpoonup> nat"
  Nodes :: "Node list"
  Conns :: "Conn list"
  events :: "Event list"

text \<open>
  The errors that the modelled methods return, one constructor for each message, and
  a fault of the run time as an error of its own.
\<close>

datatype error =
  one_does_not_exist
  | other_does_not_exist
  | one_is_not_up NodeID
  | other_is_not_up NodeID
  | already_connected NodeID NodeID
  | connection_does_not_exist NodeID NodeID
  | invalid_node_URL
  | crashed fault

definition getNode :: "Network \<Rightarrow> NodeID \<Rightarrow> fault + nat option" where
  "getNode self nid =
     (case nodeMap self nid of
        None \<Rightarrow> Inr None
      | Some i \<Rightarrow> if i < length (Nodes self) then Inr (Some i) else Inl panic_index_out_of_range)"

definition getConn :: "Network \<Rightarrow> NodeID \<Rightarrow> NodeID \<Rightarrow> fault + nat option" where
  "getConn self oneId otherId =
     (case connMap self (ConnLabel oneId otherId) of
        None \<Rightarrow> Inr None
      | Some i \<Rightarrow> if i < length (Conns self) then Inr (Some i) else Inl panic_index_out_of_range)"

definition newConn :: "Network \<Rightarrow> NodeID \<Rightarrow> NodeID \<Rightarrow> error + Conn" where
  "newConn self oneId otherId =
     (case getNode self oneId of
        Inl f \<Rightarrow> Inl (crashed f)
      | Inr None \<Rightarrow> Inl one_does_not_exist
      | Inr (Some i) \<Rightarrow>
          (case getNode self otherId of
             Inl f \<Rightarrow> Inl (crashed f)
           | Inr None \<Rightarrow> Inl other_does_not_exist
           | Inr (Some j) \<Rightarrow>
               Inr \<lparr>One = oneId, Other = otherId, one = i, other = j,
                    Up = False, Reverse = False\<rparr>))"

text \<open>\<open>GetOrCreateConn\<close> returns the connection as its position in \<open>Conns\<close>.\<close>

definition GetOrCreateConn :: "Network \<Rightarrow> NodeID \<Rightarrow> NodeID \<Rightarrow> error + nat \<times> Network" where
  "GetOrCreateConn self oneId otherId =
     (case getConn self oneId otherId of
        Inl f \<Rightarrow> Inl (crashed f)
      | Inr (Some i) \<Rightarrow> Inr (i, self)
      | Inr None \<Rightarrow>
          (case newConn self oneId otherId of
             Inl err \<Rightarrow> Inl err
           | Inr conn \<Rightarrow>
               Inr (length (Conns self),
                    self\<lparr>connMap := (connMap self)(ConnLabel oneId otherId \<mapsto> length (Conns self)),
                         Conns := Conns self @ [conn]\<rparr>)))"

text \<open>
  \<open>Conn.nodesUp\<close> reads the flags of the two nodes through its pointers; a pointer of
  a connection made by \<open>newConn\<close> is always in range.
\<close>

definition nodesUp :: "Network \<Rightarrow> Conn \<Rightarrow> error option" where
  "nodesUp self conn =
     (if length (Nodes self) \<le> one conn \<or> length (Nodes self) \<le> other conn
      then Some (crashed panic_nil_pointer_dereference)
      else if \<not> Node.Up (Nodes self ! one conn) then Some (one_is_not_up (One conn))
      else if \<not> Node.Up (Nodes self ! other conn) then Some (other_is_not_up (Other conn))
      else None)"

text \<open>
  The \<open>Connect\<close> method of a node's adapter is a parameter: given the node that
  dials and the node whose address is dialled, both as positions in \<open>Nodes\<close>, it
  returns its error and may have called back into the network.
\<close>

type_synonym NodeAdapter_Connect = "nat \<Rightarrow> nat \<Rightarrow> Network \<Rightarrow> error option \<times> Network"

definition Connect ::
  "NodeAdapter_Connect \<Rightarrow> Network \<Rightarrow> NodeID \<Rightarrow> NodeID \<Rightarrow> error option \<times> Network" where
  "Connect na self oneId otherId =
     (case GetOrCreateConn self oneId otherId of
        Inl err \<Rightarrow> (Some err, self)
      | Inr (i, self1) \<Rightarrow>
          (let conn = Conns self1 ! i in
           if Conn.Up conn then (Some (already_connected oneId otherId), self1)
           else (case nodesUp self1 conn of
                   Some err \<Rightarrow> (Some err, self1)
                 | None \<Rightarrow>
                     (let rev = (One conn \<noteq> oneId) in
                      if rev then na (other conn) (one conn) self1
                      else na (one conn) (other conn) self1))))"

definition DidConnect :: "Network \<Rightarrow> NodeID \<Rightarrow> NodeID \<Rightarrow> error option \<times> Network" where
  "DidConnect self one' other' =
     (case getConn self one' other' of
        Inl f \<Rightarrow> (Some (crashed f), self)
      | Inr None \<Rightarrow> (Some (connection_does_not_exist one' other'), self)
      | Inr (Some i) \<Rightarrow>
          (let conn = Conns self ! i in
           if Conn.Up conn then (Some (already_connected one' other'), self)
           else (None,
                 self\<lparr>Conns := (Conns self)[i := conn\<lparr>Reverse := (One conn \<noteq> one'),
                                                      Up := True\<rparr>],
                      events := events self @ [ConnEvent ''up'' ''conn'' i]\<rparr>)))"

text \<open>
  \<open>RLPx.Connect\<close>, the adapter method that is among the sources: it parses the
  address, hands the node to the p2p server and returns; it does not call back into
  the network. Whether the address of a node parses is a parameter.
\<close>

definition RLPx_Connect :: "(nat \<Rightarrow> bool) \<Rightarrow> NodeAdapter_Connect" where
  "RLPx_Connect parses i j net =
     (if parses j then (None, net) else (Some invalid_node_URL, net))"

section \<open>Concrete inputs for evaluation\<close>

subsection \<open>Stores and chunks\<close>

text \<open>
  A stand-in hasher (the length of the data and a fixed byte), a store with room for
  one chunk in memory and one on disk, and a few chunks: a resident chunk without a
  key, the same with a wait group, a resident chunk with a key, and a pending chunk
  with a wait group.
\<close>

definition exampleHash :: "byte list \<Rightarrow> Key" where
  "exampleHash bs = [of_nat (length bs), 7]"

definition emptyStore :: state where
  "emptyStore =
     \<lparr>Hash = exampleHash,
      memStore = \<lparr>entries = [], capacity = 1\<rparr>,
      DbStore = \<lparr>dbentries = [], dbcapacity = 1\<rparr>,
      wgs = (\<lambda>_. 0), chans = [], tasks = []\<rparr>"

definition residentChunk :: Chunk where
  "residentChunk =
     \<lparr>Key = [], SData = Some [1, 2, 3, 4, 5, 6, 7, 8, 9, 10],
      Size = 0, wg = None, dbStored = None\<rparr>"

definition countedChunk :: Chunk where
  "countedChunk = residentChunk\<lparr>wg := Some 0\<rparr>"

definition keyedChunk :: Chunk where
  "keyedChunk = residentChunk\<lparr>Key := [42]\<rparr>"

definition pendingChunk :: Chunk where
  "pendingChunk = \<lparr>Key = [42], SData = None, Size = 0, wg = Some 0, dbStored = None\<rparr>"


text \<open>A store whose memory holds the chunk \<open>keyedChunk\<close> and whose disk is empty.\<close>

definition memOnlyStore :: state where
  "memOnlyStore = emptyStore\<lparr>memStore := \<lparr>entries = [([42], keyedChunk)], capacity = 1\<rparr>\<rparr>"

text \<open>
  The state and the chunk after \<open>residentChunk\<close> has been put into the empty store,
  and the state after the goroutine of that Put has run with the given outcome of
  the durable write.
\<close>

definition putState :: state where
  "putState = fst (LocalStore_Put emptyStore residentChunk)"

definition putChunk :: Chunk where
  "putChunk = snd (LocalStore_Put emptyStore residentChunk)"

definition writtenState :: "bool \<Rightarrow> state" where
  "writtenState ok = projr (background ok putState putChunk)"

subsection \<open>A key of 32 bytes\<close>


subsection \<open>Two running nodes without peers\<close>

definition twoNodes :: sim where
  "twoNodes =
     \<lparr>nodes = [1 \<mapsto> \<lparr>SimNode.Id = 1, running = True, peers = Map.empty, peerFeed = []\<rparr>,
               2 \<mapsto> \<lparr>SimNode.Id = 2, running = True, peers = Map.empty, peerFeed = []\<rparr>],
      pipes = 0, started = []\<rparr>"

subsection \<open>A network of two nodes that are up, without connections\<close>

definition twoUp :: Network where
  "twoUp =
     \<lparr>nodeMap = [1 \<mapsto> 0, 2 \<mapsto> 1], connMap = Map.empty,
      Nodes = [\<lparr>Node.Id = 1, Node.Up = True\<rparr>, \<lparr>Node.Id = 2, Node.Up = True\<rparr>],
      Conns = [], events = []\<rparr>"

text \<open>The adapter of the sources, with addresses that parse.\<close>

definition rlpx :: NodeAdapter_Connect where
  "rlpx = RLPx_Connect (\<lambda>_. True)"

section \<open>Properties of the local chunk store\<close>

subsection \<open>The component stores\<close>

lemma map_of_MemStore_Put_same:
  "map_of (entries (MemStore_Put m c)) (Key c) = Some c"
  by (simp add: MemStore_Put_def Let_def bump_def)

lemma MemStore_Get_hit:
  "map_of (entries m) k = Some c \<Longrightarrow>
   MemStore_Get m k = (Inr c, m\<lparr>entries := bump k c (entries m)\<rparr>)"
  by (simp add: MemStore_Get_def)




lemma LocalStore_Get_mem_hit:
  "map_of (entries (memStore s)) k = Some c \<Longrightarrow>
   LocalStore_Get s k =
     (Inr c, s\<lparr>memStore := (memStore s)\<lparr>entries := bump k c (entries (memStore s))\<rparr>\<rparr>)"
  by (simp add: LocalStore_Get_def MemStore_Get_hit)

subsection \<open>What Put does to the state and to the chunk\<close>

lemma memStore_LocalStore_Put:
  "memStore (fst (LocalStore_Put s c)) = MemStore_Put (memStore s) (snd (LocalStore_Put s c))"
  by (simp add: LocalStore_Put_def make_chan_def Let_def split: option.splits)

lemma SData_LocalStore_Put: "SData (snd (LocalStore_Put s c)) = SData c"
  by (simp add: LocalStore_Put_def make_chan_def Let_def)

lemma wg_LocalStore_Put: "wg (snd (LocalStore_Put s c)) = wg c"
  by (simp add: LocalStore_Put_def make_chan_def Let_def)

lemma DbStore_LocalStore_Put: "DbStore (fst (LocalStore_Put s c)) = DbStore s"
  by (simp add: LocalStore_Put_def make_chan_def Let_def split: option.splits)

lemma tasks_LocalStore_Put:
  "tasks (fst (LocalStore_Put s c)) =
     (if SData c \<noteq> None then tasks s @ [snd (LocalStore_Put s c)] else tasks s)"
  by (simp add: LocalStore_Put_def make_chan_def Let_def split: option.splits)

lemma wgs_LocalStore_Put:
  "wgs (fst (LocalStore_Put s c)) =
     (case wg c of None \<Rightarrow> wgs s | Some a \<Rightarrow> (wgs s)(a := wgs s a + 1))"
  by (simp add: LocalStore_Put_def make_chan_def Let_def split: option.splits)

lemma mem_hit_after_Put:
  "map_of (entries (memStore (fst (LocalStore_Put s c)))) (Key (snd (LocalStore_Put s c)))
     = Some (snd (LocalStore_Put s c))"
  by (simp only: memStore_LocalStore_Put map_of_MemStore_Put_same)

subsection \<open>The background writer and the wait\<close>

lemma background_memStore:
  "background ok s t = Inr s' \<Longrightarrow> memStore s' = memStore s"
  by (auto simp: background_def wg_Done_def signal_dbStored_def Let_def
      split: option.splits if_splits)

lemma WaitToStore_memStore:
  "WaitToStore oks s c = Inr s' \<Longrightarrow> memStore s' = memStore s"
proof (induction oks arbitrary: s)
  case Nil
  then show ?case by (simp split: if_splits)
next
  case (Cons ok oks)
  show ?case
  proof (cases "signaled s c")
    case True
    with Cons.prems show ?thesis by simp
  next
    case False
    with Cons.prems obtain t ts s1 where "tasks s = t # ts"
      and b: "background ok (s\<lparr>tasks := ts\<rparr>) t = Inr s1"
      and w: "WaitToStore oks s1 c = Inr s'"
      by (auto split: list.splits sum.splits)
    from Cons.IH [OF w] background_memStore [OF b] show ?thesis by simp
  qed
qed

lemma WaitToStore_after_Put_returns:
  assumes "SData c \<noteq> None" and "tasks s = []"
  shows "\<exists>s2. WaitToStore [ok] (fst (LocalStore_Put s c)) (snd (LocalStore_Put s c)) = Inr s2"
  using assms
  by (auto simp: LocalStore_Put_def make_chan_def Let_def background_def wg_Done_def
      signal_dbStored_def signaled_def nth_append split: option.splits)


lemma example_Put: "LocalStore_Put emptyStore residentChunk = (fst (LocalStore_Put emptyStore residentChunk), snd (LocalStore_Put emptyStore residentChunk))"
  by simp



subsection \<open>Little-endian decoding\<close>









subsection \<open>The paths of Get\<close>







text \<open>
  With fewer than eight bytes of data on disk the slice expression of Get is out of
  range and Get panics.
\<close>

lemma LocalStore_Get_short_data_panics:
  "fst (LocalStore_Get
          (emptyStore\<lparr>DbStore := \<lparr>dbentries = [([42], [1, 2, 3])], dbcapacity = 1\<rparr>\<rparr>) [42])
   = Inl panic_slice_bounds_out_of_range"
  by (simp add: emptyStore_def LocalStore_Get_def MemStore_Get_def DbStore_Get_def bump_def
      bytes_of_def)

subsection \<open>Put and the key\<close>

text \<open>
  C3. When the chunk is put with an empty key and with data, its key after Put is
  the hash of its data; when it is put with a key that is not empty, Put leaves the
  key as it is.
\<close>

theorem LocalStore_Put_Key:
  "(length (Key c) = 0 \<and> SData c = Some bs \<longrightarrow> Key (snd (LocalStore_Put s c)) = Hash s bs)
   \<and> (length (Key c) \<noteq> 0 \<longrightarrow> Key (snd (LocalStore_Put s c)) = Key c)"
  by (simp add: LocalStore_Put_def make_chan_def Let_def bytes_of_def)

theorem LocalStore_Put_Key_witness:
  "Key (snd (LocalStore_Put emptyStore residentChunk))
     = exampleHash [1, 2, 3, 4, 5, 6, 7, 8, 9, 10]
   \<and> Key (snd (LocalStore_Put emptyStore keyedChunk)) = [42]"
  using LocalStore_Put_Key [of residentChunk "[1, 2, 3, 4, 5, 6, 7, 8, 9, 10]" emptyStore]
    LocalStore_Put_Key [of keyedChunk _ emptyStore]
  by (simp add: emptyStore_def residentChunk_def keyedChunk_def)

subsection \<open>Put and the durable store\<close>

text \<open>
  C4. Put itself never writes to the durable store. For a pending chunk (no data) it
  starts no goroutine, so no durable write is issued for it; for a chunk with data it
  starts exactly one, for that chunk.
\<close>

theorem LocalStore_Put_pending_not_stored:
  assumes "LocalStore_Put s c = (s1, c1)"
  shows "DbStore s1 = DbStore s
       \<and> (SData c = None \<longrightarrow> tasks s1 = tasks s)
       \<and> (SData c \<noteq> None \<longrightarrow> tasks s1 = tasks s @ [c1])"
proof -
  from assms have s1: "s1 = fst (LocalStore_Put s c)" and c1: "c1 = snd (LocalStore_Put s c)"
    by simp_all
  show ?thesis
    unfolding s1 c1 by (simp add: DbStore_LocalStore_Put tasks_LocalStore_Put)
qed

lemma example_Put_pending:
  "LocalStore_Put emptyStore pendingChunk
     = (fst (LocalStore_Put emptyStore pendingChunk), snd (LocalStore_Put emptyStore pendingChunk))"
  by simp

theorem LocalStore_Put_pending_not_stored_witness:
  "SData pendingChunk = None
   \<and> DbStore (fst (LocalStore_Put emptyStore pendingChunk)) = \<lparr>dbentries = [], dbcapacity = 1\<rparr>
   \<and> tasks (fst (LocalStore_Put emptyStore pendingChunk)) = []
   \<and> SData residentChunk \<noteq> None
   \<and> tasks (fst (LocalStore_Put emptyStore residentChunk))
       = [snd (LocalStore_Put emptyStore residentChunk)]"
  using LocalStore_Put_pending_not_stored [OF example_Put_pending]
    LocalStore_Put_pending_not_stored [OF example_Put]
  by (simp add: emptyStore_def pendingChunk_def residentChunk_def)

subsection \<open>Put and the outcome of the durable write\<close>

lemma background_result:
  "background ok s c = Inr s' \<Longrightarrow>
   s' = (signal_dbStored s c)\<lparr>DbStore := DbStore_Put ok (DbStore s) c,
          wgs := (case wg c of None \<Rightarrow> wgs s | Some a \<Rightarrow> (wgs s)(a := wgs s a - 1))\<rparr>"
  by (auto simp: background_def wg_Done_def signal_dbStored_def Let_def
      split: option.splits if_splits)

lemma signaled_after_background:
  assumes "LocalStore_Put s c = (s1, c1)" and "background ok s1 c1 = Inr s'"
  shows "signaled s' c1"
proof -
  from assms(1) have "dbStored c1 = Some (length (chans s))" and "chans s1 = chans s @ [False]"
    by (auto simp: LocalStore_Put_def make_chan_def Let_def split: option.splits)
  with background_result [OF assms(2)] show ?thesis
    by (simp add: signaled_def signal_dbStored_def)
qed

text \<open>
  C5. Put returns no error: its result is the new state and the updated chunk, and
  Put itself leaves the durable store untouched, so nothing in its result depends on
  the outcome of the durable write. The goroutine that performs the write later fires
  the chunk's signal whether the write succeeds or fails, and the two outcomes lead
  to states that differ in the durable store only: every lookup that the memory store
  serves answers the same in both.
\<close>

theorem LocalStore_Put_independent_of_durable_write:
  assumes "LocalStore_Put s c = (s1, c1)"
    and "background ok s1 c1 = Inr sa" and "background ok' s1 c1 = Inr sb"
  shows "DbStore s1 = DbStore s
       \<and> signaled sa c1 \<and> signaled sb c1
       \<and> sb = sa\<lparr>DbStore := DbStore sb\<rparr>
       \<and> (map_of (entries (memStore sa)) k = Some c' \<longrightarrow>
            fst (LocalStore_Get sa k) = Inr c' \<and> fst (LocalStore_Get sb k) = Inr c')"
proof -
  from assms(1) have "DbStore s1 = DbStore s"
    using DbStore_LocalStore_Put [of s c] by simp
  moreover have "signaled sa c1" and "signaled sb c1"
    using assms by (blast intro: signaled_after_background)+
  moreover have eq: "sb = sa\<lparr>DbStore := DbStore sb\<rparr>"
    using background_result [OF assms(2)] background_result [OF assms(3)] by simp
  moreover have "fst (LocalStore_Get sa k) = Inr c' \<and> fst (LocalStore_Get sb k) = Inr c'"
    if "map_of (entries (memStore sa)) k = Some c'"
  proof -
    have "memStore sb = memStore sa"
      using background_memStore [OF assms(2)] background_memStore [OF assms(3)] by simp
    with that show ?thesis by (simp add: LocalStore_Get_mem_hit)
  qed
  ultimately show ?thesis by blast
qed


lemma example_putState: "LocalStore_Put emptyStore residentChunk = (putState, putChunk)"
  by (simp add: putState_def putChunk_def)

lemma example_putChunk:
  "putChunk = residentChunk\<lparr>Key := [10, 7], dbStored := Some 0\<rparr>"
  by (simp add: putChunk_def emptyStore_def residentChunk_def exampleHash_def LocalStore_Put_def make_chan_def Let_def bytes_of_def)

lemma example_writtenState: "background ok putState putChunk = Inr (writtenState ok)"
  by (simp add: writtenState_def putState_def putChunk_def emptyStore_def residentChunk_def exampleHash_def LocalStore_Put_def
      make_chan_def Let_def bytes_of_def background_def signal_dbStored_def)

lemma example_memStore_writtenState:
  "map_of (entries (memStore (writtenState True))) [10, 7] = Some putChunk"
proof -
  have "memStore (writtenState True) = memStore putState"
    using example_writtenState by (rule background_memStore)
  then show ?thesis
    using mem_hit_after_Put [of emptyStore residentChunk]
    by (simp add: putState_def putChunk_def example_putChunk [unfolded putChunk_def])
qed

theorem LocalStore_Put_independent_of_durable_write_witness:
  "DbStore putState = DbStore emptyStore
   \<and> signaled (writtenState True) putChunk \<and> signaled (writtenState False) putChunk
   \<and> writtenState False = (writtenState True)\<lparr>DbStore := DbStore (writtenState False)\<rparr>
   \<and> fst (LocalStore_Get (writtenState True) [10, 7]) = Inr putChunk
   \<and> fst (LocalStore_Get (writtenState False) [10, 7]) = Inr putChunk"
  using LocalStore_Put_independent_of_durable_write
    [OF example_putState example_writtenState example_writtenState, of True False "[10, 7]" putChunk]
    example_memStore_writtenState
  by blast

text \<open>
  The failure of the durable write shows in a later Get for the key once the memory
  store no longer holds the chunk (here after the memory store has been emptied):
  after a successful write Get finds the chunk on disk, after a failed one it answers
  notFound.
\<close>

lemma durable_failure_surfaces_on_Get:
  "fst (LocalStore_Get ((writtenState True)\<lparr>memStore := \<lparr>entries = [], capacity = 1\<rparr>\<rparr>) [10, 7])
     = Inr \<lparr>Key = [10, 7], SData = Some [1, 2, 3, 4, 5, 6, 7, 8, 9, 10],
             Size = 578437695752307201, wg = None, dbStored = None\<rparr>"
  "fst (LocalStore_Get ((writtenState False)\<lparr>memStore := \<lparr>entries = [], capacity = 1\<rparr>\<rparr>) [10, 7])
     = Inl notFound"
  by (simp_all add: writtenState_def putState_def putChunk_def emptyStore_def residentChunk_def exampleHash_def LocalStore_Put_def
      make_chan_def Let_def bytes_of_def background_def signal_dbStored_def DbStore_Put_def
      LocalStore_Get_def MemStore_Get_def DbStore_Get_def bump_def LittleEndian_Uint64_def)

subsection \<open>Put and the wait group\<close>

text \<open>
  C10. For a chunk that carries a wait group, Put increments that counter by exactly
  one and touches no other counter. The goroutine that decrements it is started only
  when the chunk has data: it then brings the counter back to its value before Put and
  does not panic. For a pending chunk no goroutine is started, so the counter stays
  incremented.
\<close>

theorem LocalStore_Put_wait_group:
  assumes "wg c = Some a" and "LocalStore_Put s c = (s1, c1)"
  shows "wgs s1 = (wgs s)(a := wgs s a + 1)
       \<and> (SData c = None \<longrightarrow> tasks s1 = tasks s)
       \<and> (SData c \<noteq> None \<longrightarrow>
            tasks s1 = tasks s @ [c1]
            \<and> (\<exists>s2. background ok s1 c1 = Inr s2 \<and> wgs s2 = wgs s))"
proof -
  from assms(2) have s1: "s1 = fst (LocalStore_Put s c)" and c1: "c1 = snd (LocalStore_Put s c)"
    by simp_all
  have w: "wgs s1 = (wgs s)(a := wgs s a + 1)"
    unfolding s1 by (simp add: wgs_LocalStore_Put assms(1))
  have t: "tasks s1 = (if SData c \<noteq> None then tasks s @ [c1] else tasks s)"
    unfolding s1 c1 by (rule tasks_LocalStore_Put)
  have "wg c1 = Some a" unfolding c1 by (simp add: wg_LocalStore_Put assms(1))
  with w have "\<exists>s2. background ok s1 c1 = Inr s2 \<and> wgs s2 = wgs s"
    by (auto simp: background_def wg_Done_def signal_dbStored_def Let_def split: option.splits)
  with w t show ?thesis by simp
qed

lemma example_Put_counted:
  "LocalStore_Put emptyStore countedChunk
     = (fst (LocalStore_Put emptyStore countedChunk), snd (LocalStore_Put emptyStore countedChunk))"
  by simp

theorem LocalStore_Put_wait_group_witness:
  "wg pendingChunk = Some 0 \<and> SData pendingChunk = None
   \<and> wgs emptyStore 0 = 0
   \<and> wgs (fst (LocalStore_Put emptyStore pendingChunk)) 0 = 1
   \<and> tasks (fst (LocalStore_Put emptyStore pendingChunk)) = []
   \<and> wg countedChunk = Some 0 \<and> SData countedChunk \<noteq> None
   \<and> wgs (fst (LocalStore_Put emptyStore countedChunk)) 0 = 1
   \<and> tasks (fst (LocalStore_Put emptyStore countedChunk))
       = [snd (LocalStore_Put emptyStore countedChunk)]
   \<and> (\<exists>s2. background True (fst (LocalStore_Put emptyStore countedChunk))
               (snd (LocalStore_Put emptyStore countedChunk)) = Inr s2
           \<and> wgs s2 0 = 0)"
proof -
  have p: "wg pendingChunk = Some 0" "SData pendingChunk = None"
    and c: "wg countedChunk = Some 0" "SData countedChunk \<noteq> None"
    and e: "wgs emptyStore = (\<lambda>_. 0)" "tasks emptyStore = []"
    by (simp_all add: pendingChunk_def countedChunk_def residentChunk_def emptyStore_def)
  from LocalStore_Put_wait_group [OF p(1) example_Put_pending]
    LocalStore_Put_wait_group [OF c(1) example_Put_counted, of True] p c e
  show ?thesis by auto
qed

subsection \<open>The durable copy\<close>

lemma DbStore_after_wait:
  assumes "SData c \<noteq> None" and "tasks s = []"
    and "WaitToStore [ok] (fst (LocalStore_Put s c)) (snd (LocalStore_Put s c)) = Inr s2"
  shows "DbStore s2 = DbStore_Put ok (DbStore s) (snd (LocalStore_Put s c))"
  using assms
  by (auto simp: LocalStore_Put_def make_chan_def Let_def background_def wg_Done_def
      signal_dbStored_def signaled_def nth_append split: option.splits if_splits)

text \<open>
  The round trip through the durable store. When the key was not on disk before, the
  write succeeds and the data has at least eight bytes, then any later state whose
  disk is as the wait left it and whose memory no longer holds the key returns, on
  Get, a chunk with the key and the data that were put.
\<close>

lemma durable_copy_roundtrip:
  assumes "SData c = Some bs" and "8 \<le> length bs" and "tasks s = []"
    and "LocalStore_Put s c = (s1, c1)"
    and "map_of (dbentries (DbStore s)) (Key c1) = None"
    and "WaitToStore [True] s1 c1 = Inr s2"
    and "DbStore s3 = DbStore s2" and "map_of (entries (memStore s3)) (Key c1) = None"
  shows "fst (LocalStore_Get s3 (Key c1))
         = Inr \<lparr>Key = Key c1, SData = Some bs, Size = LittleEndian_Uint64 (take 8 bs),
                 wg = None, dbStored = None\<rparr>"
proof -
  from assms(4) have s1: "s1 = fst (LocalStore_Put s c)" and c1: "c1 = snd (LocalStore_Put s c)"
    by simp_all
  have sd: "SData c1 = Some bs" unfolding c1 by (simp add: SData_LocalStore_Put assms(1))
  have "DbStore s2 = DbStore_Put True (DbStore s) c1"
    using assms(1,3,6) unfolding s1 c1 by (intro DbStore_after_wait) simp_all
  with sd assms(5) have "map_of (dbentries (DbStore s2)) (Key c1) = Some bs"
    by (simp add: DbStore_Put_def)
  with assms(7) have "DbStore_Get (DbStore s3) (Key c1) =
      (Inr \<lparr>Key = Key c1, SData = Some bs, Size = 0, wg = None, dbStored = None\<rparr>,
       (DbStore s3)\<lparr>dbentries := bump (Key c1) bs (dbentries (DbStore s3))\<rparr>)"
    by (simp add: DbStore_Get_def)
  moreover from assms(8) have "MemStore_Get (memStore s3) (Key c1) = (Inl notFound, memStore s3)"
    by (simp add: MemStore_Get_def)
  ultimately show ?thesis
    using assms(2) by (simp add: LocalStore_Get_def bytes_of_def Let_def)
qed

section \<open>Properties of the retrieval server\<close>

text \<open>
  C7. When the LocalStore of the receiving node finds the key, the reply to a
  retrieve request with SkipCheck is exactly one message: the ChunkDeliveryMsg, code
  6, with the key and the data of the stored chunk. No OfferedHashesMsg is sent.
\<close>

theorem handleRetrieveRequestMsg_SkipCheck:
  assumes "fst (LocalStore_Get s key) = Inr chunk"
  shows "fst (handleRetrieveRequestMsg s key True) = [(6, ChunkDeliveryMsg key (SData chunk))]
       \<and> filter isOfferedHashesMsg (fst (handleRetrieveRequestMsg s key True)) = []"
  using assms by (auto simp: handleRetrieveRequestMsg_def split: prod.splits sum.splits)

theorem handleRetrieveRequestMsg_SkipCheck_witness:
  "fst (LocalStore_Get memOnlyStore [42]) = Inr keyedChunk
   \<and> fst (handleRetrieveRequestMsg memOnlyStore [42] True)
       = [(6, ChunkDeliveryMsg [42] (Some [1, 2, 3, 4, 5, 6, 7, 8, 9, 10]))]"
proof -
  have g: "fst (LocalStore_Get memOnlyStore [42]) = Inr keyedChunk"
    by (simp add: LocalStore_Get_def MemStore_Get_def memOnlyStore_def emptyStore_def bump_def)
  have "SData keyedChunk = Some [1, 2, 3, 4, 5, 6, 7, 8, 9, 10]"
    by (simp add: keyedChunk_def residentChunk_def)
  with handleRetrieveRequestMsg_SkipCheck [OF g] g show ?thesis by simp
qed

subsection \<open>The exchanges of the tests\<close>





subsection \<open>The handler of the spec and the test of the cases with the chunk\<close>

lemma WaitToStore_after_Put_tasks:
  assumes "SData c \<noteq> None" and "tasks s = []"
    and "WaitToStore [ok] (fst (LocalStore_Put s c)) (snd (LocalStore_Put s c)) = Inr s2"
  shows "tasks s2 = []"
  using assms
  by (auto simp: LocalStore_Put_def make_chan_def Let_def background_def wg_Done_def
      signal_dbStored_def signaled_def nth_append split: option.splits if_splits)

lemma tasks_LocalStore_Get: "tasks (snd (LocalStore_Get s k)) = tasks s"
  by (simp add: LocalStore_Get_def Let_def split: prod.splits sum.splits)

lemma Key_LocalStore_Put_nonempty:
  "Key c \<noteq> [] \<Longrightarrow> Key (snd (LocalStore_Put s c)) = Key c"
  by (simp add: LocalStore_Put_def make_chan_def Let_def)

lemma handler_after_Put:
  assumes "SData c = Some bs" and "Key c \<noteq> []" and "tasks s = []"
  shows "\<exists>s2 s3. WaitToStore [ok] (fst (LocalStore_Put s c)) (snd (LocalStore_Put s c)) = Inr s2
           \<and> handleRetrieveRequestMsg s2 (Key c) skipCheck =
               ((if skipCheck then [(6, ChunkDeliveryMsg (Key c) (Some bs))]
                 else [(1, OfferedHashesMsg retrieveRequestStream [] 0 32 (Key c) None)]), s3)
           \<and> tasks s3 = []"
proof -
  let ?s1 = "fst (LocalStore_Put s c)" and ?c1 = "snd (LocalStore_Put s c)"
  from assms(1) have d: "SData c \<noteq> None" by simp
  obtain s2 where w: "WaitToStore [ok] ?s1 ?c1 = Inr s2"
    using WaitToStore_after_Put_returns [OF d assms(3)] by blast
  have t2: "tasks s2 = []" using d assms(3) w by (rule WaitToStore_after_Put_tasks)
  have k: "Key ?c1 = Key c" using assms(2) by (rule Key_LocalStore_Put_nonempty)
  have "memStore s2 = memStore ?s1" using w by (rule WaitToStore_memStore)
  with mem_hit_after_Put [of s c] k
  have hit: "map_of (entries (memStore s2)) (Key c) = Some ?c1" by simp
  have sd: "SData ?c1 = Some bs" by (simp add: SData_LocalStore_Put assms(1))
  define s3 where "s3 = snd (LocalStore_Get s2 (Key c))"
  have g: "LocalStore_Get s2 (Key c) = (Inr ?c1, s3)"
    unfolding s3_def
    by (rule prod_eqI) (simp_all only: LocalStore_Get_mem_hit [OF hit] fst_conv snd_conv)
  have "handleRetrieveRequestMsg s2 (Key c) skipCheck =
               ((if skipCheck then [(6, ChunkDeliveryMsg (Key c) (Some bs))]
                 else [(1, OfferedHashesMsg retrieveRequestStream [] 0 32 (Key c) None)]), s3)"
    unfolding handleRetrieveRequestMsg_def by (simp add: g sd)
  moreover have "tasks s3 = []" unfolding s3_def by (simp add: tasks_LocalStore_Get t2)
  ultimately show ?thesis using w by blast
qed

text \<open>
  The handler of the spec passes the test of the sources for the two cases in which
  the chunk is found, whatever the outcomes of the durable writes.
\<close>

lemma handleRetrieveRequestMsg_passes_found_test:
  assumes "hash0 \<noteq> []" and "hash1 \<noteq> []" and "tasks s = []"
  shows "TestStreamerUpstreamRetrieveRequestMsgExchange handleRetrieveRequestMsg s hash0 hash1 ok0 ok1
         = PASS"
proof -
  let ?c0 = "\<lparr>Key = hash0, SData = Some hash0, Size = 0, wg = None, dbStored = None\<rparr>"
  let ?c1 = "\<lparr>Key = hash1, SData = Some hash1, Size = 0, wg = None, dbStored = None\<rparr>"
  obtain s2 s3 where w0: "WaitToStore [ok0] (fst (LocalStore_Put s ?c0)) (snd (LocalStore_Put s ?c0)) = Inr s2"
    and h0: "handleRetrieveRequestMsg s2 hash0 False =
               ([(1, OfferedHashesMsg retrieveRequestStream [] 0 32 hash0 None)], s3)"
    and t3: "tasks s3 = []"
    using handler_after_Put [of ?c0 hash0 s ok0 False] assms by auto
  obtain s5 s6 where w1: "WaitToStore [ok1] (fst (LocalStore_Put s3 ?c1)) (snd (LocalStore_Put s3 ?c1)) = Inr s5"
    and h1: "handleRetrieveRequestMsg s5 hash1 True = ([(6, ChunkDeliveryMsg hash1 (Some hash1))], s6)"
    using handler_after_Put [of ?c1 hash1 s3 ok1 True] assms t3 by auto
  show ?thesis
    unfolding TestStreamerUpstreamRetrieveRequestMsgExchange_def
    by (simp add: split_beta w0 h0 w1 h1 TestExchanges_def del: WaitToStore.simps)
qed

section \<open>Properties of the simulation\<close>

subsection \<open>Connecting twice\<close>

lemma DidConnect_success:
  assumes "DidConnect n1 a b = (None, n2)"
  obtains i where "getConn n1 a b = Inr (Some i)" and "i < length (Conns n1)"
    and "n2 = n1\<lparr>Conns := (Conns n1)[i := (Conns n1 ! i)\<lparr>Reverse := (One (Conns n1 ! i) \<noteq> a),
                                                      Up := True\<rparr>],
                 events := events n1 @ [ConnEvent ''up'' ''conn'' i]\<rparr>"
proof -
  from assms obtain i where g: "getConn n1 a b = Inr (Some i)"
    by (auto simp: DidConnect_def Let_def split: sum.splits option.splits if_splits)
  then have "i < length (Conns n1)"
    by (auto simp: getConn_def split: option.splits if_splits)
  moreover from assms g
  have "n2 = n1\<lparr>Conns := (Conns n1)[i := (Conns n1 ! i)\<lparr>Reverse := (One (Conns n1 ! i) \<noteq> a),
                                                      Up := True\<rparr>],
                 events := events n1 @ [ConnEvent ''up'' ''conn'' i]\<rparr>"
    by (auto simp: DidConnect_def Let_def split: if_splits)
  ultimately show ?thesis using g that by blast
qed

text \<open>
  C6, as the claim states it: on a network of two nodes that are up, with the adapter
  of the sources, the first Connect succeeds and the second Connect, right after it,
  succeeds as well: there is no duplicate error, because Connect does not set the
  flag of the connection.
\<close>

theorem Connect_twice_no_duplicate_error:
  "Node.Up (Nodes twoUp ! 0) \<and> Node.Up (Nodes twoUp ! 1)
   \<and> fst (Connect rlpx twoUp 1 2) = None
   \<and> fst (Connect rlpx (snd (Connect rlpx twoUp 1 2)) 1 2) = None"
  by (simp add: twoUp_def rlpx_def RLPx_Connect_def Connect_def GetOrCreateConn_def getConn_def
      newConn_def getNode_def nodesUp_def ConnLabel_def Let_def)

text \<open>
  C6, amended. After a successful Connect of a and b, once DidConnect has recorded
  the connection as up, a second Connect of a and b returns the error that the two are
  already connected and leaves the network as it was: its maps, its nodes, its
  connections and its events.
\<close>

theorem Connect_after_DidConnect_already_connected:
  assumes "Connect na n a b = (None, n1)" and "DidConnect n1 a b = (None, n2)"
  shows "Connect na n2 a b = (Some (already_connected a b), n2)"
proof -
  from assms(2) obtain i where g: "getConn n1 a b = Inr (Some i)" and i: "i < length (Conns n1)"
    and n2: "n2 = n1\<lparr>Conns := (Conns n1)[i := (Conns n1 ! i)\<lparr>Reverse := (One (Conns n1 ! i) \<noteq> a),
                                                      Up := True\<rparr>],
                 events := events n1 @ [ConnEvent ''up'' ''conn'' i]\<rparr>"
    by (rule DidConnect_success)
  from g i have "getConn n2 a b = Inr (Some i)"
    by (auto simp: getConn_def n2 split: option.splits if_splits)
  then have "GetOrCreateConn n2 a b = Inr (i, n2)"
    by (simp add: GetOrCreateConn_def)
  moreover have "Conn.Up (Conns n2 ! i)" using i by (simp add: n2)
  ultimately show ?thesis by (simp add: Connect_def Let_def)
qed

lemma example_Connect: "Connect rlpx twoUp 1 2 = (None, snd (Connect rlpx twoUp 1 2))"
  by (simp add: twoUp_def rlpx_def RLPx_Connect_def Connect_def GetOrCreateConn_def getConn_def
      newConn_def getNode_def nodesUp_def ConnLabel_def Let_def)

lemma example_DidConnect:
  "DidConnect (snd (Connect rlpx twoUp 1 2)) 1 2
     = (None, snd (DidConnect (snd (Connect rlpx twoUp 1 2)) 1 2))"
  by (simp add: twoUp_def rlpx_def RLPx_Connect_def Connect_def GetOrCreateConn_def getConn_def
      newConn_def getNode_def nodesUp_def ConnLabel_def Let_def DidConnect_def)

theorem Connect_after_DidConnect_already_connected_witness:
  "fst (Connect rlpx twoUp 1 2) = None
   \<and> fst (DidConnect (snd (Connect rlpx twoUp 1 2)) 1 2) = None
   \<and> Connect rlpx (snd (DidConnect (snd (Connect rlpx twoUp 1 2)) 1 2)) 1 2
       = (Some (already_connected 1 2), snd (DidConnect (snd (Connect rlpx twoUp 1 2)) 1 2))"
proof -
  have "fst (Connect rlpx twoUp 1 2) = None" using example_Connect by (metis fst_conv)
  moreover have "fst (DidConnect (snd (Connect rlpx twoUp 1 2)) 1 2) = None"
    using example_DidConnect by (metis fst_conv)
  ultimately show ?thesis
    using Connect_after_DidConnect_already_connected [OF example_Connect example_DidConnect]
    by simp
qed

subsection \<open>Adding a peer\<close>

text \<open>
  C9, as the claim states it: on two running nodes without peers, AddPeer on node 1
  for node 2 returns, and it has registered an end of the pipe in the table of node 1
  under 2, but the table of node 2 has no entry under 1.
\<close>

theorem AddPeer_registers_on_caller_only:
  "\<not> isl (AddPeer twoNodes 1 2)
   \<and> peerOf (projr (AddPeer twoNodes 1 2)) 1 2
       = Some \<lparr>pipe = 0, side = 2, feed = 1, peerID = 1\<rparr>
   \<and> nodes (projr (AddPeer twoNodes 1 2)) 2
       = Some \<lparr>SimNode.Id = 2, running = True, peers = Map.empty, peerFeed = []\<rparr>
   \<and> peerOf (projr (AddPeer twoNodes 1 2)) 2 1 = None"
  by (simp add: twoNodes_def AddPeer_def RunProtocol_def Running_def peerOf_def Let_def)

text \<open>
  C9, amended. When the calling node is running, and the peer is another node that
  is not yet a peer and is running, AddPeer creates one pipe, registers the end of
  side 2, wrapped for the calling node's own identifier, in the calling node's peer
  table under the peer's identifier and leaves the rest of that table and the whole
  peer node as they were, and starts two protocol runners, the peer's on the end of
  side 2 and the caller's on the end of side 1 (each with the goroutine that closes
  its end on drop). Each runner, when it starts, emits the add event for the other
  node on the feed of its own node.
\<close>

theorem AddPeer_effect:
  assumes "nodes a self = Some n" and "nodes a peer = Some peerNode" and "peer \<noteq> self"
    and "peers n peer = None" and "running peerNode" and "running n"
  shows "\<exists>a'. AddPeer a self peer = Inr a'
       \<and> pipes a' = pipes a + 1
       \<and> nodes a' self = Some (n\<lparr>peers := (peers n)(peer \<mapsto>
              \<lparr>pipe = pipes a, side = 2, feed = self, peerID = self\<rparr>)\<rparr>)
       \<and> nodes a' peer = Some peerNode
       \<and> started a' = started a @
            [closeOnDrop peer \<lparr>pipe = pipes a, side = 2, feed = self, peerID = self\<rparr>,
             runProtocol peer self \<lparr>pipe = pipes a, side = 2, feed = self, peerID = self\<rparr>,
             closeOnDrop self \<lparr>pipe = pipes a, side = 1, feed = self, peerID = peer\<rparr>,
             runProtocol self peer \<lparr>pipe = pipes a, side = 1, feed = self, peerID = peer\<rparr>]
       \<and> feedOf (goroutine_start a'
              (runProtocol peer self \<lparr>pipe = pipes a, side = 2, feed = self, peerID = self\<rparr>)) peer
           = peerFeed peerNode @ [PeerEvent PeerEventTypeAdd self []]
       \<and> feedOf (goroutine_start a'
              (runProtocol self peer \<lparr>pipe = pipes a, side = 1, feed = self, peerID = peer\<rparr>)) self
           = peerFeed n @ [PeerEvent PeerEventTypeAdd peer []]"
  using assms
  by (simp add: AddPeer_def RunProtocol_def Running_def feedOf_def Let_def)

theorem AddPeer_effect_witness:
  "\<exists>a'. AddPeer twoNodes 1 2 = Inr a'
       \<and> pipes a' = 1
       \<and> peerOf a' 1 2 = Some \<lparr>pipe = 0, side = 2, feed = 1, peerID = 1\<rparr>
       \<and> peerOf a' 2 1 = None
       \<and> started a' =
            [closeOnDrop 2 \<lparr>pipe = 0, side = 2, feed = 1, peerID = 1\<rparr>,
             runProtocol 2 1 \<lparr>pipe = 0, side = 2, feed = 1, peerID = 1\<rparr>,
             closeOnDrop 1 \<lparr>pipe = 0, side = 1, feed = 1, peerID = 2\<rparr>,
             runProtocol 1 2 \<lparr>pipe = 0, side = 1, feed = 1, peerID = 2\<rparr>]
       \<and> feedOf (goroutine_start a' (runProtocol 2 1 \<lparr>pipe = 0, side = 2, feed = 1, peerID = 1\<rparr>)) 2
           = [PeerEvent PeerEventTypeAdd 1 []]
       \<and> feedOf (goroutine_start a' (runProtocol 1 2 \<lparr>pipe = 0, side = 1, feed = 1, peerID = 2\<rparr>)) 1
           = [PeerEvent PeerEventTypeAdd 2 []]"
proof -
  have "nodes twoNodes 1 = Some \<lparr>SimNode.Id = 1, running = True, peers = Map.empty, peerFeed = []\<rparr>"
    and "nodes twoNodes 2 = Some \<lparr>SimNode.Id = 2, running = True, peers = Map.empty, peerFeed = []\<rparr>"
    and "pipes twoNodes = 0" and "started twoNodes = []"
    by (simp_all add: twoNodes_def)
  from AddPeer_effect [OF this(1) this(2)] this(3,4)
  show ?thesis by (auto simp: peerOf_def)
qed

text \<open>
  Two inputs that the amended statement leaves out: a calling node without a running
  service dereferences nil when its own runner is set up, and a node that adds itself
  waits for its own lock.
\<close>

lemma AddPeer_caller_not_running:
  "nodes a self = Some n \<Longrightarrow> nodes a peer = Some peerNode \<Longrightarrow> peer \<noteq> self \<Longrightarrow>
   peers n peer = None \<Longrightarrow> running peerNode \<Longrightarrow> \<not> running n \<Longrightarrow>
   AddPeer a self peer = Inl panic_nil_pointer_dereference"
  by (simp add: AddPeer_def RunProtocol_def Running_def Let_def)

lemma AddPeer_self:
  "nodes a self = Some n \<Longrightarrow> peers n self = None \<Longrightarrow> AddPeer a self self = Inl deadlock"
  by (simp add: AddPeer_def)

end
